theory Spec2Isabelle
  imports Main
begin

section \<open>The command-line front end of python-ags4 (\<^verbatim>\<open>ags4_cli.py\<close>)\<close>

text \<open>
  The front end has two subcommands, \<^verbatim>\<open>convert\<close> and \<^verbatim>\<open>check\<close>. Both only look at the
  names of the files they are given, print to the console and hand the work over to the
  \<^verbatim>\<open>AGS4\<close> module of the library. The model below records what a run does as a trace of
  events, in program order, together with the exception that escaped the run (if any).
  The \<^verbatim>\<open>AGS4\<close> module is a parameter of the model, and so are the operating system and
  two functions of the console library.
\<close>

subsection \<open>Python strings\<close>

text \<open>
  A Python \<^verbatim>\<open>str\<close> is modelled as a \<^typ>\<open>string\<close>. The source only compares characters
  (\<^verbatim>\<open>endswith\<close>, \<^verbatim>\<open>split\<close>, \<^verbatim>\<open>strip\<close>) and lowers the case of an option value that is then
  compared with two ASCII words.
\<close>

definition endswith :: "string \<Rightarrow> string \<Rightarrow> bool" where
  "endswith s suffix =
     (length suffix \<le> length s \<and> drop (length s - length suffix) s = suffix)"

text \<open>\<^verbatim>\<open>s.split(sep)\<close> for a separator of one character; the result is never empty.\<close>

fun split :: "string \<Rightarrow> char \<Rightarrow> string list" where
  "split [] sep = [[]]"
| "split (c # cs) sep =
     (if c = sep then [] # split cs sep
      else (c # hd (split cs sep)) # tl (split cs sep))"

text \<open>\<^verbatim>\<open>s.lower()\<close>: the letters A to Z are moved to a to z.\<close>

definition lower_char :: "char \<Rightarrow> char" where
  "lower_char c =
     (case map_of (zip ''ABCDEFGHIJKLMNOPQRSTUVWXYZ'' ''abcdefghijklmnopqrstuvwxyz'') c of
        None \<Rightarrow> c
      | Some l \<Rightarrow> l)"

definition lower :: "string \<Rightarrow> string" where
  "lower s = map lower_char s"

text \<open>\<^verbatim>\<open>s.strip(c)\<close> for one character: the leading and the trailing run of it is removed.\<close>

definition strip :: "string \<Rightarrow> char \<Rightarrow> string" where
  "strip s c = rev (dropWhile (\<lambda>x. x = c) (rev (dropWhile (\<lambda>x. x = c) s)))"

text \<open>\<^verbatim>\<open>str(n)\<close> of a natural number, in decimal.\<close>

definition digit :: "nat \<Rightarrow> char" where
  "digit d = ''0123456789'' ! d"

fun str_nat :: "nat \<Rightarrow> string" where
  "str_nat n =
     (if n < 10 then [digit n]
      else str_nat (n div 10) @ [digit (n mod 10)])"

declare str_nat.simps [simp del]

definition str_int :: "int \<Rightarrow> string" where
  "str_int i = (if i < 0 then CHR ''-'' # str_nat (nat (- i)) else str_nat (nat i))"

abbreviation newline :: string where
  "newline \<equiv> [CHR 0x0A]"

abbreviation tab :: string where
  "tab \<equiv> [CHR 0x09]"

abbreviation dquote :: string where
  "dquote \<equiv> [CHR 0x22]"

subsection \<open>Events, exceptions and the library\<close>

text \<open>
  An exception is a value. The front end raises none itself: an exception comes out of a
  call into the library, out of the console when it prints, or out of the operating
  system, and the front end catches none, so it ends the run.
\<close>

datatype exn =
    LibraryError string | OSError string | UsageError string | KeyError string
  | MarkupError string

datatype event =
    Console_print string
  | Builtin_print string
  | Console_status string
  | Call_AGS4_to_excel string string
  | Call_excel_to_AGS4 string string bool "string option"
  | Call_check_file string string
  | File_open_r string
  | File_open_w string
  | File_write string string
  | File_close string

text \<open>A run: the events so far, and the exception that ended it (\<open>None\<close>: it returned).\<close>

type_synonym run = "event list \<times> exn option"

definition emit :: "event \<Rightarrow> run" where
  "emit e = ([e], None)"

text \<open>A block of statements: they run in order, and the first exception ends the block.\<close>

fun block :: "run list \<Rightarrow> run" where
  "block [] = ([], None)"
| "block (stmt # rest) =
     (case snd stmt of
        Some e \<Rightarrow> stmt
      | None \<Rightarrow> (fst stmt @ fst (block rest), snd (block rest)))"

text \<open>A step that yields a value, and the run that goes on with the value.\<close>

definition and_then :: "event list \<times> (exn + 'a) \<Rightarrow> ('a \<Rightarrow> run) \<Rightarrow> run" where
  "and_then step rest =
     (case step of
        (trace, Inl e) \<Rightarrow> (trace, Some e)
      | (trace, Inr v) \<Rightarrow> (trace @ fst (rest v), snd (rest v)))"

definition builtin_print :: "string \<Rightarrow> run" where
  "builtin_print s = emit (Builtin_print s)"

subsection \<open>Console markup\<close>

text \<open>
  \<^verbatim>\<open>console.print\<close> of the library rich reads its argument as markup: a tag is an opening
  bracket, a first character out of \<^verbatim>\<open>a\<close> to \<^verbatim>\<open>z\<close>, \<^verbatim>\<open>#\<close>, \<^verbatim>\<open>/\<close> and \<^verbatim>\<open>@\<close>, any characters
  but an opening bracket, and the first closing bracket; an odd number of backslashes
  before the opening bracket makes it plain text. The program puts file names, keys, group
  labels and descriptions into its messages as they are, so what they hold is read as
  markup too. A closing tag that closes nothing makes \<^verbatim>\<open>console.print\<close> raise
  \<^verbatim>\<open>MarkupError\<close>, and then nothing is printed.

  The scan of the markup goes through the text once. Its state says how many backslashes
  came just before: outside a tag, just after an opening bracket, or inside the text of a
  tag (with the text so far).
\<close>

datatype scan = Outside nat | Opened nat | Inside nat string nat

definition backslash :: char where
  "backslash = CHR 0x5C"

definition tag_start :: string where
  "tag_start = ''abcdefghijklmnopqrstuvwxyz#/@''"

fun tag_texts :: "scan \<Rightarrow> string \<Rightarrow> string list" where
  "tag_texts st [] = []"
| "tag_texts (Outside k) (c # cs) =
     (if c = backslash then tag_texts (Outside (Suc k)) cs
      else if c = CHR ''['' then tag_texts (Opened k) cs
      else tag_texts (Outside 0) cs)"
| "tag_texts (Opened k) (c # cs) =
     (if c \<in> set tag_start then tag_texts (Inside k [c] 0) cs
      else if c = CHR ''['' then tag_texts (Opened 0) cs
      else if c = backslash then tag_texts (Outside 1) cs
      else tag_texts (Outside 0) cs)"
| "tag_texts (Inside k text b) (c # cs) =
     (if c = CHR '']'' then (if even k then [text] else []) @ tag_texts (Outside 0) cs
      else if c = CHR ''['' then tag_texts (Opened b) cs
      else tag_texts (Inside k (text @ [c]) (if c = backslash then Suc b else 0)) cs)"

text \<open>A tag is a name and, after the first equals sign, its parameters.\<close>

definition tag_of :: "string \<Rightarrow> string \<times> string option" where
  "tag_of text =
     (if CHR ''='' \<in> set text
      then (takeWhile (\<lambda>c. c \<noteq> CHR ''='') text,
            Some (tl (dropWhile (\<lambda>c. c \<noteq> CHR ''='') text)))
      else (text, None))"

text \<open>\<^verbatim>\<open>s.strip()\<close>: white space is removed at both ends.\<close>

definition whitespace :: string where
  "whitespace = [CHR 0x09, CHR 0x0A, CHR 0x0B, CHR 0x0C, CHR 0x0D,
                 CHR 0x1C, CHR 0x1D, CHR 0x1E, CHR 0x1F, CHR 0x20, CHR 0x85, CHR 0xA0]"

definition strip_ws :: "string \<Rightarrow> string" where
  "strip_ws s =
     rev (dropWhile (\<lambda>x. x \<in> set whitespace) (rev (dropWhile (\<lambda>x. x \<in> set whitespace) s)))"

text \<open>
  Two things of rich are parameters: \<^verbatim>\<open>Style.normalize\<close>, which brings the name of a style
  into a normal form, and whether the parameters of a handler tag (one whose name starts
  with \<^verbatim>\<open>@\<close>) fail to evaluate.
\<close>

record console =
  normalize :: "string \<Rightarrow> string"
  meta_error :: "string \<Rightarrow> bool"

text \<open>
  The stack of the open tags has its top first. A closing tag with a name takes the
  nearest open tag of that name off the stack, one without a name takes the top.
\<close>

fun pop_style ::
  "string \<Rightarrow> (string \<times> string option) list
     \<Rightarrow> ((string \<times> string option) \<times> (string \<times> string option) list) option" where
  "pop_style style_name [] = None"
| "pop_style style_name (tag # stack) =
     (if fst tag = style_name then Some (tag, stack)
      else (case pop_style style_name stack of
              None \<Rightarrow> None
            | Some (found, others) \<Rightarrow> Some (found, tag # others)))"

definition startswith :: "string \<Rightarrow> string \<Rightarrow> bool" where
  "startswith s prefix = (take (length prefix) s = prefix)"

definition handler_error :: "console \<Rightarrow> string \<times> string option \<Rightarrow> bool" where
  "handler_error con open_tag =
     (startswith (fst open_tag) ''@''
      \<and> (case snd open_tag of None \<Rightarrow> False | Some p \<Rightarrow> p \<noteq> [] \<and> meta_error con p))"

text \<open>\<open>True\<close>: rendering the tags raises \<^verbatim>\<open>MarkupError\<close>.\<close>

fun render_tags :: "console \<Rightarrow> (string \<times> string option) list \<Rightarrow> string list \<Rightarrow> bool" where
  "render_tags con stack [] = False"
| "render_tags con stack (text # rest) =
     (let tag = tag_of text in
      if startswith (fst tag) ''/'' then
        (let style_name = strip_ws (tl (fst tag)) in
         case (if style_name \<noteq> [] then pop_style (normalize con style_name) stack
               else (case stack of [] \<Rightarrow> None | tag' # others \<Rightarrow> Some (tag', others))) of
           None \<Rightarrow> True
         | Some (open_tag, stack') \<Rightarrow>
             if handler_error con open_tag then True else render_tags con stack' rest)
      else render_tags con ((normalize con (fst tag), snd tag) # stack) rest)"

definition markup_error :: "console \<Rightarrow> string \<Rightarrow> bool" where
  "markup_error con markup = render_tags con [] (tag_texts (Outside 0) markup)"

definition console_print :: "console \<Rightarrow> string \<Rightarrow> run" where
  "console_print con markup =
     (if markup_error con markup then ([], Some (MarkupError markup))
      else emit (Console_print markup))"

text \<open>
  One record of the error report that \<^verbatim>\<open>AGS4.check_file\<close> returns. The line is whatever
  the library stored there, a number or a text; an f-string formats it with \<^verbatim>\<open>str\<close>.
\<close>

datatype py_value = Py_int int | Py_str string

fun py_format :: "py_value \<Rightarrow> string" where
  "py_format (Py_int i) = str_int i"
| "py_format (Py_str s) = s"

record entry =
  line :: py_value
  group :: string
  desc :: string

text \<open>
  The error report is a Python dict from rule-group key to a list of records. A dict
  keeps its keys in insertion order, so it is modelled as the list of its items; its keys
  are distinct.
\<close>

type_synonym ags_errors = "(string \<times> entry list) list"

definition dict_keys :: "('k \<times> 'v) list \<Rightarrow> 'k list" where
  "dict_keys d = map fst d"

definition dict_items :: "('k \<times> 'v) list \<Rightarrow> ('k \<times> 'v) list" where
  "dict_items d = d"

text \<open>\<^verbatim>\<open>d[key]\<close>: a missing key raises \<^verbatim>\<open>KeyError\<close>, here \<open>None\<close>.\<close>

definition dict_get :: "('k \<times> 'v) list \<Rightarrow> 'k \<Rightarrow> 'v option" where
  "dict_get d key = map_of d key"

definition wf_dict :: "('k \<times> 'v) list \<Rightarrow> bool" where
  "wf_dict d = distinct (map fst d)"

text \<open>
  The three functions of the \<^verbatim>\<open>AGS4\<close> module that the front end calls. The two
  conversions return nothing; each call either returns or raises.
\<close>

record AGS4 =
  AGS4_to_excel :: "string \<Rightarrow> string \<Rightarrow> exn option"
  excel_to_AGS4 :: "string \<Rightarrow> string \<Rightarrow> bool \<Rightarrow> string option \<Rightarrow> exn option"
  check_file :: "string \<Rightarrow> string \<Rightarrow> exn + ags_errors"

text \<open>The calls into the library that a trace holds, in order.\<close>

fun is_conversion_call :: "event \<Rightarrow> bool" where
  "is_conversion_call (Call_AGS4_to_excel i out) = True"
| "is_conversion_call (Call_excel_to_AGS4 i out f d) = True"
| "is_conversion_call e = False"

fun is_library_call :: "event \<Rightarrow> bool" where
  "is_library_call (Call_check_file i d) = True"
| "is_library_call e = is_conversion_call e"


definition library_calls :: "event list \<Rightarrow> event list" where
  "library_calls trace = filter is_library_call trace"

subsection \<open>The subcommand \<^verbatim>\<open>convert\<close>\<close>

text \<open>
  click hands the function the two files, and the dictionary when one is given, as file
  objects; the function takes their names first. A file object is modelled by its name.
\<close>

datatype py_file = Py_file (name: string)

definition format_numeric_columns_of :: "string \<Rightarrow> bool" where
  "format_numeric_columns_of format_columns = (lower format_columns \<in> set [''true'', ''yes''])"

definition convert :: "console \<Rightarrow> AGS4 \<Rightarrow> py_file \<Rightarrow> py_file \<Rightarrow> string \<Rightarrow> py_file option \<Rightarrow> run" where
  "convert con lib input_file_obj output_file_obj format_columns dictionary_obj =
     (let input_file = name input_file_obj;
          output_file = name output_file_obj
      in
      if endswith input_file ''.ags'' \<and> endswith output_file ''.xlsx'' then
        block
         [console_print con (''[green]Opening file... [bold]'' @ input_file @ ''[/bold][/green]''),
          console_print con (''[green]Exporting data to... [bold]'' @ output_file @ ''[/bold][/green]''),
          builtin_print '''',
          ([Call_AGS4_to_excel input_file output_file], AGS4_to_excel lib input_file output_file),
          console_print con (newline @ ''[green]File conversion complete! :heavy_check_mark:[/green]'' @ newline)]
      else if endswith input_file ''.xlsx'' \<and> endswith output_file ''.ags'' then
        block
         [console_print con (''[green]Opening file... [bold]'' @ input_file @ ''[/bold][/green]''),
          console_print con (''[green]Exporting data to... [bold]'' @ output_file @ ''[/bold][/green]''),
          builtin_print '''',
          (let format_numeric_columns = format_numeric_columns_of format_columns;
               dictionary = (case dictionary_obj of None \<Rightarrow> None | Some f \<Rightarrow> Some (name f))
           in ([Call_excel_to_AGS4 input_file output_file format_numeric_columns dictionary],
               excel_to_AGS4 lib input_file output_file format_numeric_columns dictionary)),
          console_print con (newline @ ''[green]File conversion complete! :heavy_check_mark:[/green]'' @ newline)]
      else if (endswith input_file ''.ags'' \<and> endswith output_file ''.ags'')
            \<or> (endswith input_file ''.xlsx'' \<and> endswith output_file ''.xlsx'') then
        (let file_type = last (split input_file CHR ''.'') in
         console_print con (''[yellow]Both input and output files are of the same type (i.e. [bold].''
             @ file_type @ ''[/bold]). No conversion necessary.[/yellow]''))
      else
        block
         [console_print con ''[red]ERROR: Invalid filenames.[/red]'',
          console_print con (''[red]Try '' @ dquote @ ''ags4_cli convert --help'' @ dquote
             @ '' to see help and examples.[/red]'')])"

subsection \<open>The command line of \<^verbatim>\<open>convert\<close>\<close>

text \<open>
  The decorators of \<^verbatim>\<open>convert\<close> declare how click turns the words of the command line into
  the arguments of the function, before the function is entered:
  \<^item> \<^verbatim>\<open>input_file\<close> is a \<^verbatim>\<open>click.File('r')\<close> and \<^verbatim>\<open>output_file\<close> a
    \<^verbatim>\<open>click.File('w', lazy=False)\<close>: click opens the named file at once, for reading or for
    writing; when the file cannot be opened click reports a usage error and the function
    is never entered. A lone dash is not a file name: it stands for the standard input or
    output, which is open already.
  \<^item> \<^verbatim>\<open>--format_columns\<close> is the text \<^verbatim>\<open>true\<close> when the option is absent;
  \<^item> \<^verbatim>\<open>--dictionary\<close> is a \<^verbatim>\<open>click.File('r')\<close>, and \<^verbatim>\<open>None\<close> when the option is absent.
  click converts the options that are given first, then the arguments in the order of their
  declaration. Opening a file for writing creates it, or empties it when it exists.
  Which files can be opened is a parameter, the operating system.
\<close>

record os =
  readable :: "string \<Rightarrow> bool"
  writable :: "string \<Rightarrow> bool"

definition click_File_r :: "os \<Rightarrow> string \<Rightarrow> event list \<times> (exn + py_file)" where
  "click_File_r sys v =
     (if v = ''-'' then ([], Inr (Py_file ''<stdin>''))
      else if readable sys v then ([File_open_r v], Inr (Py_file v))
      else ([], Inl (UsageError v)))"

definition click_File_w :: "os \<Rightarrow> string \<Rightarrow> event list \<times> (exn + py_file)" where
  "click_File_w sys v =
     (if v = ''-'' then ([], Inr (Py_file ''<stdout>''))
      else if writable sys v then ([File_open_w v], Inr (Py_file v))
      else ([], Inl (UsageError v)))"

record convert_args =
  INPUT_FILE :: string
  OUTPUT_FILE :: string
  opt_format_columns :: "string option"
  opt_dictionary :: "string option"

definition format_columns_param :: "string option \<Rightarrow> string" where
  "format_columns_param opt = (case opt of None \<Rightarrow> ''true'' | Some v \<Rightarrow> v)"

definition dictionary_param :: "os \<Rightarrow> string option \<Rightarrow> event list \<times> (exn + py_file option)" where
  "dictionary_param sys opt =
     (case opt of
        None \<Rightarrow> ([], Inr None)
      | Some v \<Rightarrow> (fst (click_File_r sys v), map_sum id Some (snd (click_File_r sys v))))"

definition convert_params ::
  "os \<Rightarrow> convert_args \<Rightarrow> event list \<times> (exn + py_file \<times> py_file \<times> string \<times> py_file option)" where
  "convert_params sys args =
     (case dictionary_param sys (opt_dictionary args) of
        (t1, Inl e) \<Rightarrow> (t1, Inl e)
      | (t1, Inr dictionary) \<Rightarrow>
     (case click_File_r sys (INPUT_FILE args) of
        (t2, Inl e) \<Rightarrow> (t1 @ t2, Inl e)
      | (t2, Inr input_file) \<Rightarrow>
     (case click_File_w sys (OUTPUT_FILE args) of
        (t3, Inl e) \<Rightarrow> (t1 @ t2 @ t3, Inl e)
      | (t3, Inr output_file) \<Rightarrow>
          (t1 @ t2 @ t3,
           Inr (input_file, output_file,
                format_columns_param (opt_format_columns args), dictionary)))))"

definition convert_command :: "console \<Rightarrow> os \<Rightarrow> AGS4 \<Rightarrow> convert_args \<Rightarrow> run" where
  "convert_command con sys lib args =
     and_then (convert_params sys args)
       (\<lambda>(input_file, output_file, format_columns, dictionary).
          convert con lib input_file output_file format_columns dictionary)"

text \<open>
  What the front end's own file operations do to the files (a file is its text). What a call
  into the library does to them is the library's business and is not part of this.
\<close>

fun file_effect :: "event \<Rightarrow> (string \<rightharpoonup> string) \<Rightarrow> (string \<rightharpoonup> string)" where
  "file_effect (File_open_w p) files = files(p \<mapsto> [])"
| "file_effect (File_write p s) files =
     files(p \<mapsto> (case files p of None \<Rightarrow> s | Some text \<Rightarrow> text @ s))"
| "file_effect e files = files"

definition files_after :: "event list \<Rightarrow> (string \<rightharpoonup> string) \<Rightarrow> (string \<rightharpoonup> string)" where
  "files_after trace files = fold file_effect trace files"

subsection \<open>\<^verbatim>\<open>os.path\<close>\<close>

text \<open>
  \<^verbatim>\<open>os.path.dirname\<close> and \<^verbatim>\<open>os.path.join\<close> (with one component to join) as the module
  \<^verbatim>\<open>posixpath\<close> of the standard library defines them; the separator is the slash.
  \<^verbatim>\<open>os.path.basename\<close>, the part after the last slash, only serves to say where the
  default log lies.
\<close>

definition rfind :: "string \<Rightarrow> char \<Rightarrow> int" where
  "rfind s c =
     (if c \<in> set s then int (length s) - 1 - int (length (takeWhile (\<lambda>x. x \<noteq> c) (rev s)))
      else - 1)"

definition rstrip :: "string \<Rightarrow> char \<Rightarrow> string" where
  "rstrip s c = rev (dropWhile (\<lambda>x. x = c) (rev s))"

definition dirname :: "string \<Rightarrow> string" where
  "dirname p =
     (let i = rfind p CHR ''/'' + 1;
          head = take (nat i) p
      in if head \<noteq> [] \<and> head \<noteq> replicate (length head) CHR ''/''
         then rstrip head CHR ''/'' else head)"

definition basename :: "string \<Rightarrow> string" where
  "basename p = (let i = rfind p CHR ''/'' + 1 in drop (nat i) p)"

definition path_join :: "string \<Rightarrow> string \<Rightarrow> string" where
  "path_join a b =
     (if startswith b ''/'' then b
      else if a = [] \<or> endswith a ''/'' then a @ b
      else a @ ''/'' @ b)"

subsection \<open>The subcommand \<^verbatim>\<open>check\<close>\<close>

text \<open>\<^verbatim>\<open>print_to_screen\<close>: one loop over the keys, one over the records of each key.\<close>

definition screen_key :: "string \<Rightarrow> string" where
  "screen_key key = ''[underline]'' @ key @ ''[/underline]:''"

definition screen_entry :: "entry \<Rightarrow> string" where
  "screen_entry entry =
     ''  Line '' @ py_format (line entry) @ tab @ '' [bold]'' @ strip (group entry) CHR 0x22
       @ ''[/bold]'' @ tab @ '' '' @ desc entry"

fun print_entries :: "console \<Rightarrow> entry list \<Rightarrow> run" where
  "print_entries con [] = ([], None)"
| "print_entries con (entry # rest) =
     block [console_print con (screen_entry entry), print_entries con rest]"

fun print_keys :: "console \<Rightarrow> ags_errors \<Rightarrow> string list \<Rightarrow> run" where
  "print_keys con ags_errors [] = ([], None)"
| "print_keys con ags_errors (key # keys) =
     block
      [console_print con (screen_key key),
       (case dict_get ags_errors key of
          None \<Rightarrow> ([], Some (KeyError key))
        | Some val \<Rightarrow> print_entries con val),
       console_print con '''',
       print_keys con ags_errors keys]"

definition print_to_screen :: "console \<Rightarrow> ags_errors \<Rightarrow> run" where
  "print_to_screen con ags_errors = print_keys con ags_errors (dict_keys ags_errors)"

text \<open>
  \<^verbatim>\<open>save_to_file\<close>: the file is opened for writing (and closed when the \<^verbatim>\<open>with\<close> block is
  left); when it cannot be opened, \<^verbatim>\<open>open\<close> raises. What is written is plain text, no
  markup.
\<close>

definition file_entry :: "entry \<Rightarrow> string" where
  "file_entry entry =
     ''  Line '' @ py_format (line entry) @ tab @ '' '' @ strip (group entry) CHR 0x22
       @ tab @ '' '' @ desc entry @ newline"

fun write_entries :: "string \<Rightarrow> entry list \<Rightarrow> event list" where
  "write_entries f [] = []"
| "write_entries f (entry # rest) = File_write f (file_entry entry) # write_entries f rest"

fun write_keys :: "string \<Rightarrow> ags_errors \<Rightarrow> string list \<Rightarrow> run" where
  "write_keys f ags_errors [] = ([], None)"
| "write_keys f ags_errors (key # keys) =
     block
      [emit (File_write f (key @ '':'' @ newline)),
       (case dict_get ags_errors key of
          None \<Rightarrow> ([], Some (KeyError key))
        | Some val \<Rightarrow> (write_entries f val, None)),
       emit (File_write f newline),
       write_keys f ags_errors keys]"

definition save_to_file :: "os \<Rightarrow> string \<Rightarrow> ags_errors \<Rightarrow> string \<Rightarrow> nat \<Rightarrow> run" where
  "save_to_file sys output_file ags_errors input_file error_count =
     (if \<not> writable sys output_file then ([], Some (OSError output_file))
      else
        (let body = block
              [emit (File_open_w output_file),
               emit (File_write output_file (''Input file: '' @ input_file @ newline)),
               emit (File_write output_file (str_nat error_count @ '' errors found!'' @ newline)),
               emit (File_write output_file newline),
               write_keys output_file ags_errors (dict_keys ags_errors)]
         in (fst body @ [File_close output_file], snd body)))"

text \<open>The loop of \<^verbatim>\<open>check\<close> that counts the records of the report.\<close>

fun count_errors :: "(string \<times> entry list) list \<Rightarrow> nat \<Rightarrow> nat" where
  "count_errors [] error_count = error_count"
| "count_errors ((key, val) # items) error_count = count_errors items (error_count + length val)"

definition errors_found :: "nat \<Rightarrow> string" where
  "errors_found error_count =
     newline @ ''[yellow]File check complete! '' @ str_nat error_count @ '' errors found![/yellow]''"

definition check :: "console \<Rightarrow> os \<Rightarrow> AGS4 \<Rightarrow> string \<Rightarrow> string \<Rightarrow> string option \<Rightarrow> run" where
  "check con sys lib input_file dictionary output_file =
     (if endswith input_file ''.ags'' then
        block
         [console_print con (''[green]Opening file... [bold]'' @ input_file @ ''[/bold][/green]''),
          console_print con '''',
          emit (Console_status ''[bold green]Checking file...''),
          and_then ([Call_check_file input_file dictionary], check_file lib input_file dictionary)
            (\<lambda>ags_errors.
              if ags_errors = [] then
                console_print con (newline
                  @ ''[green]File check complete! No errors found. :heavy_check_mark:[/green]''
                  @ newline)
              else
                (let error_count = count_errors (dict_items ags_errors) 0 in
                 if error_count < 100 then
                   block
                    [print_to_screen con ags_errors,
                     console_print con (errors_found error_count),
                     (case output_file of
                        None \<Rightarrow> block []
                      | Some out_file \<Rightarrow>
                          block
                           [save_to_file sys out_file ags_errors input_file error_count,
                            console_print con (newline @ ''[yellow]Error report saved in ''
                              @ out_file @ ''.[/yellow]'' @ newline)])]
                 else
                   block
                    [console_print con (errors_found error_count),
                     console_print con (newline
                       @ ''[yellow]Error report too long to print to screen.[/yellow]''),
                     (let out_file =
                        (case output_file of
                           None \<Rightarrow> path_join (dirname input_file) ''error_log.txt''
                         | Some given \<Rightarrow> given)
                      in block
                          [save_to_file sys out_file ags_errors input_file error_count,
                           console_print con (newline @ ''[yellow]Error report saved in ''
                             @ out_file @ ''[/yellow]'' @ newline)])]))]
      else
        console_print con ''[red]ERROR: Only .ags files are accepted as input.[/red]'')"

subsection \<open>The report, in the words of the specification\<close>

text \<open>
  The total error count of a report: the sum, over its rule-group keys, of the number of
  records in the sequence of that key.
\<close>

definition total_errors :: "ags_errors \<Rightarrow> nat" where
  "total_errors report =
     sum_list (map (\<lambda>key. case dict_get report key of None \<Rightarrow> 0 | Some val \<Rightarrow> length val)
                   (dict_keys report))"

text \<open>
  The lines of a record: on the screen its line number, its group label (without the
  double quotes around it) in bold and its description, separated by a tab and a blank;
  in the log the same without the markup, and ended by a newline.
\<close>

definition record_on_screen :: "entry \<Rightarrow> string" where
  "record_on_screen r =
     ''  Line '' @ py_format (line r) @ [CHR 0x09] @ '' [bold]''
       @ strip (group r) CHR 0x22 @ ''[/bold]'' @ [CHR 0x09] @ '' '' @ desc r"

definition record_in_file :: "entry \<Rightarrow> string" where
  "record_in_file r =
     ''  Line '' @ py_format (line r) @ [CHR 0x09] @ '' ''
       @ strip (group r) CHR 0x22 @ [CHR 0x09] @ '' '' @ desc r @ [CHR 0x0A]"

text \<open>
  The report on the screen: group after group in the order of the report, each as the
  underlined key with a colon, one line for each of its records in the order of the
  sequence, and an empty line.
\<close>

definition report_on_screen :: "ags_errors \<Rightarrow> event list" where
  "report_on_screen report =
     concat (map (\<lambda>(key, val).
        Console_print (''[underline]'' @ key @ ''[/underline]:'')
          # map (\<lambda>r. Console_print (record_on_screen r)) val
          @ [Console_print '''']) report)"

text \<open>The text of the saved log: the name of the input, the count, then group after group.\<close>

definition report_in_file :: "string \<Rightarrow> ags_errors \<Rightarrow> nat \<Rightarrow> string" where
  "report_in_file input_file report n =
     ''Input file: '' @ input_file @ [CHR 0x0A]
       @ str_nat n @ '' errors found!'' @ [CHR 0x0A]
       @ [CHR 0x0A]
       @ concat (map (\<lambda>(key, val).
           key @ '':'' @ [CHR 0x0A] @ concat (map record_in_file val) @ [CHR 0x0A]) report)"

text \<open>The message that tells the count.\<close>

definition count_message :: "nat \<Rightarrow> string" where
  "count_message n =
     [CHR 0x0A] @ ''[yellow]File check complete! '' @ str_nat n @ '' errors found![/yellow]''"

text \<open>
  The events of saving the log to a file, piece by piece, and the events of a whole check
  of an \<^verbatim>\<open>.ags\<close> file, when nothing stops it: the opening, the call, then for an empty
  report the message that no errors were found; for fewer than 100 records the report on
  the screen, the count and, when an output file is given, the saving; for 100 records
  and more the count, the remark that the report is too long and the saving.
\<close>

definition saving :: "string \<Rightarrow> string \<Rightarrow> ags_errors \<Rightarrow> event list" where
  "saving f input_file report =
     File_open_w f
       # map (File_write f)
           ((''Input file: '' @ input_file @ [CHR 0x0A])
            # (str_nat (total_errors report) @ '' errors found!'' @ [CHR 0x0A])
            # [CHR 0x0A]
            # concat (map (\<lambda>(key, val).
                 (key @ '':'' @ [CHR 0x0A]) # map record_in_file val @ [[CHR 0x0A]]) report))
       @ [File_close f]"

definition whole_check :: "string \<Rightarrow> string \<Rightarrow> string option \<Rightarrow> ags_errors \<Rightarrow> event list" where
  "whole_check input_file dictionary output_file report =
     [Console_print (''[green]Opening file... [bold]'' @ input_file @ ''[/bold][/green]''),
      Console_print '''',
      Console_status ''[bold green]Checking file...'',
      Call_check_file input_file dictionary]
     @ (if report = [] then
          [Console_print ([CHR 0x0A]
             @ ''[green]File check complete! No errors found. :heavy_check_mark:[/green]''
             @ [CHR 0x0A])]
        else if total_errors report < 100 then
          report_on_screen report
          @ [Console_print (count_message (total_errors report))]
          @ (case output_file of
               None \<Rightarrow> []
             | Some f \<Rightarrow>
                 saving f input_file report
                 @ [Console_print ([CHR 0x0A] @ ''[yellow]Error report saved in '' @ f
                      @ ''.[/yellow]'' @ [CHR 0x0A])])
        else
          [Console_print (count_message (total_errors report)),
           Console_print ([CHR 0x0A]
             @ ''[yellow]Error report too long to print to screen.[/yellow]'')]
          @ (let f = (case output_file of
                        None \<Rightarrow> path_join (dirname input_file) ''error_log.txt''
                      | Some given \<Rightarrow> given)
             in saving f input_file report
                @ [Console_print ([CHR 0x0A] @ ''[yellow]Error report saved in '' @ f
                     @ ''[/yellow]'' @ [CHR 0x0A])]))"

text \<open>
  A run goes along a list of events when it has done an initial part of the list, and all
  of it when it returned.
\<close>

definition along :: "run \<Rightarrow> event list \<Rightarrow> bool" where
  "along r events =
     (take (length (fst r)) events = fst r \<and> (snd r = None \<longrightarrow> fst r = events))"

text \<open>What a run shows on the terminal, message by message.\<close>

fun shown :: "event \<Rightarrow> string list" where
  "shown (Console_print markup) = [markup]"
| "shown (Builtin_print s) = [s]"
| "shown (Console_status markup) = [markup]"
| "shown e = []"

definition screen_output :: "event list \<Rightarrow> string list" where
  "screen_output trace = concat (map shown trace)"

section \<open>Properties\<close>

subsection \<open>Strings and runs\<close>

lemma endswith_last: "endswith s suf \<Longrightarrow> suf \<noteq> [] \<Longrightarrow> last s = last suf"
  unfolding endswith_def
  by (metis append_take_drop_id last_appendR)

lemma endswith_append: "endswith s suf \<longleftrightarrow> (\<exists>pre. s = pre @ suf)"
  unfolding endswith_def
  by (metis append_eq_conv_conj append_take_drop_id diff_add_inverse2 le_add2 length_append
      length_drop)

lemma ags_not_xlsx: "endswith s ''.ags'' \<Longrightarrow> \<not> endswith s ''.xlsx''"
  using endswith_last [of s "''.ags''"] endswith_last [of s "''.xlsx''"] by auto

lemma split_ne: "split s c \<noteq> []"
  by (induction s) auto

lemma split_append: "split (xs @ c # ys) c = split xs c @ split ys c"
  by (induction xs) (auto simp: split_ne)

lemma split_no_sep: "c \<notin> set s \<Longrightarrow> split s c = [s]"
  by (induction s) auto

lemma last_split_ext:
  assumes "endswith s (c # ext)" and "c \<notin> set ext"
  shows "last (split s c) = ext"
proof -
  from assms(1) obtain pre where "s = pre @ c # ext"
    by (auto simp: endswith_append)
  then show ?thesis
    using assms(2) by (simp add: split_append split_no_sep split_ne)
qed

text \<open>The functions on strings, on examples.\<close>

lemma strings_examples:
  "lower ''TrUe'' = ''true''"
  "lower ''YES'' = ''yes''"
  "str_nat 0 = ''0''"
  "str_nat 120 = ''120''"
  "str_int (- 7) = ''-7''"
  "strip (dquote @ ''LOCA'' @ dquote) CHR 0x22 = ''LOCA''"
  "split ''a.b.ags'' CHR ''.'' = [''a'', ''b'', ''ags'']"
  "strip_ws '' bold '' = ''bold''"
  by (simp_all add: lower_def lower_char_def str_nat.simps digit_def str_int_def strip_def
      strip_ws_def whitespace_def)

lemma str_nat_digits: "set (str_nat n) \<subseteq> set ''0123456789''"
proof (induction n rule: str_nat.induct)
  case (1 n)
  have d: "digit m \<in> set ''0123456789''" if "m < 10" for m
    unfolding digit_def using that by (intro nth_mem) simp
  show ?case
  proof (cases "n < 10")
    case True
    then show ?thesis
      using d [of n] by (subst str_nat.simps) simp
  next
    case False
    have "n mod 10 < 10" by simp
    then show ?thesis
      using False 1 d [of "n mod 10"] by (subst str_nat.simps) simp
  qed
qed

subsection \<open>Messages that always render\<close>

lemmas markup_defs = markup_error_def backslash_def tag_start_def tag_of_def startswith_def
  strip_ws_def whitespace_def handler_error_def Let_def

lemma tag_texts_plain:
  assumes "\<forall>c \<in> set m. c \<noteq> backslash \<and> c \<noteq> CHR ''[''"
  shows "tag_texts (Outside 0) (m @ rest) = tag_texts (Outside 0) rest"
  using assms by (induction m) auto

lemma tag_texts_digits:
  "tag_texts (Outside 0) (str_nat n @ rest) = tag_texts (Outside 0) rest"
proof (rule tag_texts_plain)
  show "\<forall>c \<in> set (str_nat n). c \<noteq> backslash \<and> c \<noteq> CHR ''[''"
    using str_nat_digits [of n] by (auto simp: backslash_def)
qed

lemma fixed_messages_render:
  "\<not> markup_error con ''''"
  "\<not> markup_error con ''[red]ERROR: Invalid filenames.[/red]''"
  "\<not> markup_error con (''[red]Try '' @ dquote @ ''ags4_cli convert --help'' @ dquote
        @ '' to see help and examples.[/red]'')"
  "\<not> markup_error con ''[red]ERROR: Only .ags files are accepted as input.[/red]''"
  "\<not> markup_error con
        ''[yellow]Both input and output files are of the same type (i.e. [bold].ags[/bold]). No conversion necessary.[/yellow]''"
  "\<not> markup_error con
        ''[yellow]Both input and output files are of the same type (i.e. [bold].xlsx[/bold]). No conversion necessary.[/yellow]''"
  "\<not> markup_error con
        (newline @ ''[green]File conversion complete! :heavy_check_mark:[/green]'' @ newline)"
  "\<not> markup_error con
        (newline @ ''[green]File check complete! No errors found. :heavy_check_mark:[/green]''
          @ newline)"
  "\<not> markup_error con
        (newline @ ''[yellow]Error report too long to print to screen.[/yellow]'')"
  by (simp_all add: markup_defs)

lemma errors_found_renders: "\<not> markup_error con (errors_found n)"
  by (simp add: errors_found_def markup_defs tag_texts_digits)

lemmas run_defs = console_print_def builtin_print_def emit_def


subsection \<open>The dispatch of \<^verbatim>\<open>convert\<close>\<close>

text \<open>
  In both branches that convert, the call into the library comes after two messages that
  hold the names of the files. The call is made exactly when both messages render.
\<close>

lemma convert_ags_to_xlsx_calls:
  assumes "endswith (name input_file) ''.ags''"
    and "endswith (name output_file) ''.xlsx''"
  shows "library_calls (fst (convert con lib input_file output_file format_columns dictionary))
           = (if markup_error con
                   (''[green]Opening file... [bold]'' @ name input_file @ ''[/bold][/green]'')
                 \<or> markup_error con
                   (''[green]Exporting data to... [bold]'' @ name output_file
                      @ ''[/bold][/green]'')
              then []
              else [Call_AGS4_to_excel (name input_file) (name output_file)])"
  using assms fixed_messages_render(7) [of con]
  by (simp add: convert_def library_calls_def run_defs Let_def split: option.splits)


text \<open>
  C1. The name \<^verbatim>\<open>x[/][/][/].ags\<close> ends in \<^verbatim>\<open>.ags\<close> and \<^verbatim>\<open>out.xlsx\<close> ends in \<^verbatim>\<open>.xlsx\<close>, yet
  \<^verbatim>\<open>convert\<close> never calls \<^verbatim>\<open>AGS4.AGS4_to_excel\<close> for them, whatever the console and the
  library are: the first message holds the name of the input as it is, the name closes
  more tags than the message opens, \<^verbatim>\<open>console.print\<close> raises \<^verbatim>\<open>MarkupError\<close>, and the run
  ends there with no event at all.
\<close>

theorem convert_ags_to_xlsx_unescaped_name:
  "endswith (name (Py_file ''x[/][/][/].ags'')) ''.ags''
   \<and> endswith (name (Py_file ''out.xlsx'')) ''.xlsx''
   \<and> convert con lib (Py_file ''x[/][/][/].ags'') (Py_file ''out.xlsx'') format_columns dictionary
       = ([], Some (MarkupError ''[green]Opening file... [bold]x[/][/][/].ags[/bold][/green]''))
   \<and> library_calls
        (fst (convert con lib (Py_file ''x[/][/][/].ags'') (Py_file ''out.xlsx'')
               format_columns dictionary)) = []"
proof -
  have bad: "markup_error con ''[green]Opening file... [bold]x[/][/][/].ags[/bold][/green]''"
    by (simp add: markup_defs)
  have run: "convert con lib (Py_file ''x[/][/][/].ags'') (Py_file ''out.xlsx'')
               format_columns dictionary
       = ([], Some (MarkupError ''[green]Opening file... [bold]x[/][/][/].ags[/bold][/green]''))"
    using bad by (simp add: convert_def endswith_def Let_def console_print_def)
  show ?thesis
    unfolding run by (simp add: endswith_def library_calls_def)
qed

text \<open>
  C2. The name \<^verbatim>\<open>x[/][/][/].xlsx\<close> ends in \<^verbatim>\<open>.xlsx\<close> and \<^verbatim>\<open>out.ags\<close> ends in \<^verbatim>\<open>.ags\<close>, yet
  \<^verbatim>\<open>convert\<close> never calls \<^verbatim>\<open>AGS4.excel_to_AGS4\<close> for them, whatever the console, the
  library and the options are: the first message holds the name of the input as it is,
  \<^verbatim>\<open>console.print\<close> raises \<^verbatim>\<open>MarkupError\<close>, and the run ends there with no event at all.
\<close>

theorem convert_xlsx_to_ags_unescaped_name:
  "endswith (name (Py_file ''x[/][/][/].xlsx'')) ''.xlsx''
   \<and> endswith (name (Py_file ''out.ags'')) ''.ags''
   \<and> convert con lib (Py_file ''x[/][/][/].xlsx'') (Py_file ''out.ags'') format_columns dictionary
       = ([], Some (MarkupError ''[green]Opening file... [bold]x[/][/][/].xlsx[/bold][/green]''))
   \<and> library_calls
        (fst (convert con lib (Py_file ''x[/][/][/].xlsx'') (Py_file ''out.ags'')
               format_columns dictionary)) = []"
proof -
  have bad: "markup_error con ''[green]Opening file... [bold]x[/][/][/].xlsx[/bold][/green]''"
    by (simp add: markup_defs)
  have run: "convert con lib (Py_file ''x[/][/][/].xlsx'') (Py_file ''out.ags'')
               format_columns dictionary
       = ([], Some (MarkupError ''[green]Opening file... [bold]x[/][/][/].xlsx[/bold][/green]''))"
    using bad by (simp add: convert_def endswith_def Let_def console_print_def)
  show ?thesis
    unfolding run by (simp add: endswith_def library_calls_def)
qed

text \<open>
  C3. When both names end in \<^verbatim>\<open>.ags\<close>, or both in \<^verbatim>\<open>.xlsx\<close>, \<^verbatim>\<open>convert\<close> prints the warning that
  both files are of the same type and that no conversion is necessary, naming the type, and
  does nothing else: it calls no function of the library.
\<close>

theorem convert_same_type:
  assumes "(endswith (name input_file) ''.ags'' \<and> endswith (name output_file) ''.ags'')
         \<or> (endswith (name input_file) ''.xlsx'' \<and> endswith (name output_file) ''.xlsx'')"
  shows "convert con lib input_file output_file format_columns dictionary
           = ([Console_print
                 (''[yellow]Both input and output files are of the same type (i.e. [bold].''
                  @ (if endswith (name input_file) ''.ags'' then ''ags'' else ''xlsx'')
                  @ ''[/bold]). No conversion necessary.[/yellow]'')], None)
       \<and> library_calls (fst (convert con lib input_file output_file format_columns dictionary)) = []"
proof -
  have ft: "last (split (name input_file) CHR ''.'')
              = (if endswith (name input_file) ''.ags'' then ''ags'' else ''xlsx'')"
    using assms ags_not_xlsx [of "name input_file"]
      last_split_ext [of "name input_file" "CHR ''.''" "''ags''"]
      last_split_ext [of "name input_file" "CHR ''.''" "''xlsx''"]
    by auto
  have no1: "\<not> (endswith (name input_file) ''.ags'' \<and> endswith (name output_file) ''.xlsx'')"
    using assms ags_not_xlsx by blast
  have no2: "\<not> (endswith (name input_file) ''.xlsx'' \<and> endswith (name output_file) ''.ags'')"
    using assms ags_not_xlsx by blast
  have "convert con lib input_file output_file format_columns dictionary
           = console_print con
                 (''[yellow]Both input and output files are of the same type (i.e. [bold].''
                  @ last (split (name input_file) CHR ''.'')
                  @ ''[/bold]). No conversion necessary.[/yellow]'')"
    using assms no1 no2 unfolding convert_def Let_def by (simp only: if_True if_False)
  then show ?thesis
    using fixed_messages_render(5,6) [of con]
    by (simp add: ft library_calls_def run_defs)
qed

theorem convert_same_type_witness:
  "((endswith (name (Py_file ''a.b.xlsx'')) ''.ags'' \<and> endswith (name (Py_file ''out.xlsx'')) ''.ags'')
      \<or> (endswith (name (Py_file ''a.b.xlsx'')) ''.xlsx''
          \<and> endswith (name (Py_file ''out.xlsx'')) ''.xlsx''))
   \<and> convert \<lparr>normalize = \<lambda>s. s, meta_error = \<lambda>p. False\<rparr>
          \<lparr>AGS4_to_excel = \<lambda>i out. None,
          excel_to_AGS4 = \<lambda>i out f d. None, check_file = \<lambda>i d. Inr []\<rparr>
          (Py_file ''a.b.xlsx'') (Py_file ''out.xlsx'') ''true'' None
       = ([Console_print
             ''[yellow]Both input and output files are of the same type (i.e. [bold].xlsx[/bold]). No conversion necessary.[/yellow]''],
          None)"
proof -
  have a: "(endswith (name (Py_file ''a.b.xlsx'')) ''.ags''
              \<and> endswith (name (Py_file ''out.xlsx'')) ''.ags'')
           \<or> (endswith (name (Py_file ''a.b.xlsx'')) ''.xlsx''
              \<and> endswith (name (Py_file ''out.xlsx'')) ''.xlsx'')"
    by (simp add: endswith_def)
  have b: "\<not> endswith (name (Py_file ''a.b.xlsx'')) ''.ags''"
    by (simp add: endswith_def)
  show ?thesis
    using a b convert_same_type [OF a] by simp
qed

text \<open>
  C4. When the two names are no pair that \<^verbatim>\<open>convert\<close> knows (not \<^verbatim>\<open>.ags\<close> to \<^verbatim>\<open>.xlsx\<close>, not
  \<^verbatim>\<open>.xlsx\<close> to \<^verbatim>\<open>.ags\<close>, not twice \<^verbatim>\<open>.ags\<close> and not twice \<^verbatim>\<open>.xlsx\<close>), it prints the error
  message about invalid file names and the hint at the help, calls no function of the
  library, and returns: no exception leaves it.
\<close>

theorem convert_invalid_filenames:
  assumes "\<not> (endswith (name input_file) ''.ags'' \<and> endswith (name output_file) ''.xlsx'')"
    and "\<not> (endswith (name input_file) ''.xlsx'' \<and> endswith (name output_file) ''.ags'')"
    and "\<not> ((endswith (name input_file) ''.ags'' \<and> endswith (name output_file) ''.ags'')
           \<or> (endswith (name input_file) ''.xlsx'' \<and> endswith (name output_file) ''.xlsx''))"
  shows "convert con lib input_file output_file format_columns dictionary
           = ([Console_print ''[red]ERROR: Invalid filenames.[/red]'',
               Console_print (''[red]Try '' @ dquote @ ''ags4_cli convert --help'' @ dquote
                 @ '' to see help and examples.[/red]'')], None)
       \<and> library_calls (fst (convert con lib input_file output_file format_columns dictionary)) = []
       \<and> snd (convert con lib input_file output_file format_columns dictionary) = None"
proof -
  have "convert con lib input_file output_file format_columns dictionary
           = ([Console_print ''[red]ERROR: Invalid filenames.[/red]'',
               Console_print (''[red]Try '' @ dquote @ ''ags4_cli convert --help'' @ dquote
                 @ '' to see help and examples.[/red]'')], None)"
    using assms fixed_messages_render(2,3) [of con]
    unfolding convert_def Let_def run_defs by simp
  then show ?thesis
    by (simp add: library_calls_def)
qed

theorem convert_invalid_filenames_witness:
  "\<not> (endswith (name (Py_file ''data.ags'')) ''.ags'' \<and> endswith (name (Py_file ''data.csv'')) ''.xlsx'')
   \<and> \<not> (endswith (name (Py_file ''data.ags'')) ''.xlsx'' \<and> endswith (name (Py_file ''data.csv'')) ''.ags'')
   \<and> \<not> ((endswith (name (Py_file ''data.ags'')) ''.ags'' \<and> endswith (name (Py_file ''data.csv'')) ''.ags'')
         \<or> (endswith (name (Py_file ''data.ags'')) ''.xlsx''
             \<and> endswith (name (Py_file ''data.csv'')) ''.xlsx''))
   \<and> snd (convert \<lparr>normalize = \<lambda>s. s, meta_error = \<lambda>p. False\<rparr>
          \<lparr>AGS4_to_excel = \<lambda>i out. Some (LibraryError ''never called''),
          excel_to_AGS4 = \<lambda>i out f d. Some (LibraryError ''never called''),
          check_file = \<lambda>i d. Inl (LibraryError ''never called'')\<rparr>
          (Py_file ''data.ags'') (Py_file ''data.csv'') ''true'' None) = None"
proof -
  have a: "\<not> (endswith (name (Py_file ''data.ags'')) ''.ags''
              \<and> endswith (name (Py_file ''data.csv'')) ''.xlsx'')"
    by (simp add: endswith_def)
  have b: "\<not> (endswith (name (Py_file ''data.ags'')) ''.xlsx''
              \<and> endswith (name (Py_file ''data.csv'')) ''.ags'')"
    by (simp add: endswith_def)
  have c: "\<not> ((endswith (name (Py_file ''data.ags'')) ''.ags''
               \<and> endswith (name (Py_file ''data.csv'')) ''.ags'')
           \<or> (endswith (name (Py_file ''data.ags'')) ''.xlsx''
               \<and> endswith (name (Py_file ''data.csv'')) ''.xlsx''))"
    by (simp add: endswith_def)
  show ?thesis
    using a b c convert_invalid_filenames [OF a b c] by blast
qed

subsection \<open>The command line of \<^verbatim>\<open>convert\<close>\<close>

lemma convert_params_accepted:
  assumes "snd (convert_params sys args) = Inr (input_file, output_file, format_columns, dictionary)"
  shows "snd (click_File_r sys (INPUT_FILE args)) = Inr input_file"
    and "snd (click_File_w sys (OUTPUT_FILE args)) = Inr output_file"
    and "snd (dictionary_param sys (opt_dictionary args)) = Inr dictionary"
    and "format_columns = format_columns_param (opt_format_columns args)"
    and "fst (convert_params sys args)
           = fst (dictionary_param sys (opt_dictionary args))
             @ fst (click_File_r sys (INPUT_FILE args))
             @ fst (click_File_w sys (OUTPUT_FILE args))"
  using assms
  by (auto simp: convert_params_def split: prod.splits sum.splits)

lemma click_File_w_opened:
  assumes "snd (click_File_w sys v) = Inr f" and "v \<noteq> ''-''"
  shows "click_File_w sys v = ([File_open_w v], Inr (Py_file v))" and "name f = v"
  using assms by (auto simp: click_File_w_def split: if_splits)




lemma convert_command_accepted:
  assumes "snd (convert_params sys args) = Inr (input_file, output_file, format_columns, dictionary)"
  shows "convert_command con sys lib args
           = (fst (convert_params sys args)
                @ fst (convert con lib input_file output_file format_columns dictionary),
              snd (convert con lib input_file output_file format_columns dictionary))"
  using assms by (cases "convert_params sys args") (simp add: convert_command_def and_then_def)

lemma files_after_append: "files_after (xs @ ys) files = files_after ys (files_after xs files)"
  by (simp add: files_after_def)

lemma files_after_console:
  "\<forall>e \<in> set trace. \<exists>m. e = Console_print m \<Longrightarrow> files_after trace files = files"
  by (induction trace arbitrary: files) (auto simp: files_after_def)

lemma convert_no_conversion_console:
  assumes "\<not> (endswith (name input_file) ''.ags'' \<and> endswith (name output_file) ''.xlsx'')"
    and "\<not> (endswith (name input_file) ''.xlsx'' \<and> endswith (name output_file) ''.ags'')"
  shows "\<forall>e \<in> set (fst (convert con lib input_file output_file format_columns dictionary)).
           \<exists>m. e = Console_print m"
  using assms unfolding convert_def Let_def run_defs by auto

text \<open>
  C8. Whenever click accepts the command line of \<^verbatim>\<open>convert\<close>, so that the function is
  entered, and the output argument names a file (it is not the lone dash), the output file
  has been opened for writing while the arguments were converted: the opening is the last
  event before the events of the function, that is, before the dispatch on the extensions.
  So when the dispatch converts nothing (the two names are of the same type, or they are
  invalid), the run leaves the output file created or emptied, whatever it held before.
\<close>

theorem convert_command_opens_output:
  assumes "snd (convert_params sys args) = Inr (input_file, output_file, format_columns, dictionary)"
    and "OUTPUT_FILE args \<noteq> ''-''"
  shows "(\<exists>before. fst (convert_params sys args) = before @ [File_open_w (OUTPUT_FILE args)])
       \<and> fst (convert_command con sys lib args)
           = fst (convert_params sys args)
             @ fst (convert con lib input_file output_file format_columns dictionary)
       \<and> name output_file = OUTPUT_FILE args
       \<and> (\<not> (endswith (name input_file) ''.ags'' \<and> endswith (name output_file) ''.xlsx'')
            \<and> \<not> (endswith (name input_file) ''.xlsx'' \<and> endswith (name output_file) ''.ags'')
          \<longrightarrow> files_after (fst (convert_command con sys lib args)) files (OUTPUT_FILE args)
               = Some [])"
proof -
  note acc = convert_params_accepted [OF assms(1)]
  note w = click_File_w_opened [OF acc(2) assms(2)]
  have parse: "fst (convert_params sys args)
      = (fst (dictionary_param sys (opt_dictionary args))
          @ fst (click_File_r sys (INPUT_FILE args))) @ [File_open_w (OUTPUT_FILE args)]"
    using acc(5) w(1) by simp
  have run: "fst (convert_command con sys lib args)
           = fst (convert_params sys args)
             @ fst (convert con lib input_file output_file format_columns dictionary)"
    by (simp add: convert_command_accepted [OF assms(1)])
  have files: "files_after (fst (convert_command con sys lib args)) files (OUTPUT_FILE args)
                 = Some []"
    if "\<not> (endswith (name input_file) ''.ags'' \<and> endswith (name output_file) ''.xlsx'')"
      and "\<not> (endswith (name input_file) ''.xlsx'' \<and> endswith (name output_file) ''.ags'')"
  proof -
    have "files_after (fst (convert con lib input_file output_file format_columns dictionary)) fs
            = fs" for fs
      using convert_no_conversion_console [OF that] by (rule files_after_console)
    then show ?thesis
      unfolding run parse by (simp add: files_after_append) (simp add: files_after_def)
  qed
  show ?thesis
    using parse run w(2) files by blast
qed

theorem convert_command_opens_output_witness:
  "snd (convert_params \<lparr>readable = \<lambda>p. True, writable = \<lambda>p. True\<rparr>
          \<lparr>INPUT_FILE = ''data.ags'', OUTPUT_FILE = ''data.ags'',
            opt_format_columns = None, opt_dictionary = None\<rparr>)
     = Inr (Py_file ''data.ags'', Py_file ''data.ags'', ''true'', None)
   \<and> OUTPUT_FILE \<lparr>INPUT_FILE = ''data.ags'', OUTPUT_FILE = ''data.ags'',
            opt_format_columns = None, opt_dictionary = None\<rparr> \<noteq> ''-''
   \<and> files_after
        (fst (convert_command \<lparr>normalize = \<lambda>s. s, meta_error = \<lambda>p. False\<rparr>
           \<lparr>readable = \<lambda>p. True, writable = \<lambda>p. True\<rparr>
           \<lparr>AGS4_to_excel = \<lambda>i out. None, excel_to_AGS4 = \<lambda>i out f d. None,
             check_file = \<lambda>i d. Inr []\<rparr>
           \<lparr>INPUT_FILE = ''data.ags'', OUTPUT_FILE = ''data.ags'',
             opt_format_columns = None, opt_dictionary = None\<rparr>))
        [''data.ags'' \<mapsto> ''GROUP,PROJ'']
        ''data.ags''
     = Some []"
proof -
  have a: "snd (convert_params \<lparr>readable = \<lambda>p. True, writable = \<lambda>p. True\<rparr>
          \<lparr>INPUT_FILE = ''data.ags'', OUTPUT_FILE = ''data.ags'',
            opt_format_columns = None, opt_dictionary = None\<rparr>)
     = Inr (Py_file ''data.ags'', Py_file ''data.ags'', ''true'', None)"
    by (simp add: convert_params_def dictionary_param_def click_File_r_def click_File_w_def
        format_columns_param_def)
  have b: "OUTPUT_FILE \<lparr>INPUT_FILE = ''data.ags'', OUTPUT_FILE = ''data.ags'',
            opt_format_columns = None, opt_dictionary = None\<rparr> \<noteq> ''-''"
    by simp
  have c: "\<not> (endswith (name (Py_file ''data.ags'')) ''.ags''
              \<and> endswith (name (Py_file ''data.ags'')) ''.xlsx'')
         \<and> \<not> (endswith (name (Py_file ''data.ags'')) ''.xlsx''
              \<and> endswith (name (Py_file ''data.ags'')) ''.ags'')"
    by (simp add: endswith_def)
  note opened = convert_command_opens_output [OF a b,
      where con = "\<lparr>normalize = \<lambda>s. s, meta_error = \<lambda>p. False\<rparr>"
        and lib = "\<lparr>AGS4_to_excel = \<lambda>i out. None, excel_to_AGS4 = \<lambda>i out f d. None,
             check_file = \<lambda>i d. Inr []\<rparr>"
        and files = "[''data.ags'' \<mapsto> ''GROUP,PROJ'']"]
  have d: "files_after
        (fst (convert_command \<lparr>normalize = \<lambda>s. s, meta_error = \<lambda>p. False\<rparr>
           \<lparr>readable = \<lambda>p. True, writable = \<lambda>p. True\<rparr>
           \<lparr>AGS4_to_excel = \<lambda>i out. None, excel_to_AGS4 = \<lambda>i out f d. None,
             check_file = \<lambda>i d. Inr []\<rparr>
           \<lparr>INPUT_FILE = ''data.ags'', OUTPUT_FILE = ''data.ags'',
             opt_format_columns = None, opt_dictionary = None\<rparr>))
        [''data.ags'' \<mapsto> ''GROUP,PROJ'']
        (OUTPUT_FILE \<lparr>INPUT_FILE = ''data.ags'', OUTPUT_FILE = ''data.ags'',
             opt_format_columns = None, opt_dictionary = None\<rparr>)
     = Some []"
    by (rule opened [THEN conjunct2, THEN conjunct2, THEN conjunct2, THEN mp, OF c])
  show ?thesis
    using a b d by simp
qed

text \<open>
  The claim as it is worded, for every command line, does not hold. With the dash as
  output argument click hands the function the standard output: the function is entered,
  finds the names invalid and prints its two error messages, and no file has been opened
  for writing.
\<close>

theorem convert_command_dash_output:
  "convert_command \<lparr>normalize = \<lambda>s. s, meta_error = \<lambda>p. False\<rparr>
      \<lparr>readable = \<lambda>p. True, writable = \<lambda>p. True\<rparr>
      \<lparr>AGS4_to_excel = \<lambda>i out. None, excel_to_AGS4 = \<lambda>i out f d. None,
        check_file = \<lambda>i d. Inr []\<rparr>
      \<lparr>INPUT_FILE = ''data.ags'', OUTPUT_FILE = ''-'',
        opt_format_columns = None, opt_dictionary = None\<rparr>
     = ([File_open_r ''data.ags'',
         Console_print ''[red]ERROR: Invalid filenames.[/red]'',
         Console_print (''[red]Try '' @ dquote @ ''ags4_cli convert --help'' @ dquote
           @ '' to see help and examples.[/red]'')], None)
   \<and> files_after
        (fst (convert_command \<lparr>normalize = \<lambda>s. s, meta_error = \<lambda>p. False\<rparr>
           \<lparr>readable = \<lambda>p. True, writable = \<lambda>p. True\<rparr>
           \<lparr>AGS4_to_excel = \<lambda>i out. None, excel_to_AGS4 = \<lambda>i out f d. None,
             check_file = \<lambda>i d. Inr []\<rparr>
           \<lparr>INPUT_FILE = ''data.ags'', OUTPUT_FILE = ''-'',
             opt_format_columns = None, opt_dictionary = None\<rparr>))
        Map.empty ''-''
     = None"
proof -
  have run: "convert_command \<lparr>normalize = \<lambda>s. s, meta_error = \<lambda>p. False\<rparr>
      \<lparr>readable = \<lambda>p. True, writable = \<lambda>p. True\<rparr>
      \<lparr>AGS4_to_excel = \<lambda>i out. None, excel_to_AGS4 = \<lambda>i out f d. None,
        check_file = \<lambda>i d. Inr []\<rparr>
      \<lparr>INPUT_FILE = ''data.ags'', OUTPUT_FILE = ''-'',
        opt_format_columns = None, opt_dictionary = None\<rparr>
     = ([File_open_r ''data.ags'',
         Console_print ''[red]ERROR: Invalid filenames.[/red]'',
         Console_print (''[red]Try '' @ dquote @ ''ags4_cli convert --help'' @ dquote
           @ '' to see help and examples.[/red]'')], None)"
    by (simp add: convert_command_def convert_params_def dictionary_param_def click_File_r_def
        click_File_w_def format_columns_param_def and_then_def convert_def Let_def endswith_def
        run_defs markup_defs)
  show ?thesis
    unfolding run by (simp add: files_after_def)
qed

text \<open>The flag, on examples.\<close>

lemma format_numeric_columns_examples:
  "format_numeric_columns_of ''true''"
  "format_numeric_columns_of ''TRUE''"
  "format_numeric_columns_of ''Yes''"
  "\<not> format_numeric_columns_of ''false''"
  "\<not> format_numeric_columns_of ''ture''"
  "\<not> format_numeric_columns_of ''1''"
  by (simp_all add: format_numeric_columns_of_def lower_def lower_char_def)





subsection \<open>The subcommand \<^verbatim>\<open>check\<close> on other files\<close>

text \<open>
  C9. When the name of the input file does not end in \<^verbatim>\<open>.ags\<close>, \<^verbatim>\<open>check\<close> prints the error
  message that only \<^verbatim>\<open>.ags\<close> files are accepted as input and does nothing else: it never calls
  \<^verbatim>\<open>AGS4.check_file\<close>.
\<close>

theorem check_other_input:
  assumes "\<not> endswith input_file ''.ags''"
  shows "check con sys lib input_file dictionary output_file
           = ([Console_print ''[red]ERROR: Only .ags files are accepted as input.[/red]''], None)
       \<and> library_calls (fst (check con sys lib input_file dictionary output_file)) = []"
  using assms fixed_messages_render(4) [of con]
  by (simp add: check_def run_defs library_calls_def)

theorem check_other_input_witness:
  "\<not> endswith ''data.xlsx'' ''.ags''
   \<and> check \<lparr>normalize = \<lambda>s. s, meta_error = \<lambda>p. False\<rparr>
        \<lparr>readable = \<lambda>p. True, writable = \<lambda>p. True\<rparr>
        \<lparr>AGS4_to_excel = \<lambda>i out. None, excel_to_AGS4 = \<lambda>i out f d. None,
          check_file = \<lambda>i d. Inr []\<rparr> ''data.xlsx'' ''dict.ags'' None
       = ([Console_print ''[red]ERROR: Only .ags files are accepted as input.[/red]''], None)"
proof -
  have a: "\<not> endswith ''data.xlsx'' ''.ags''"
    by (simp add: endswith_def)
  show ?thesis
    using a check_other_input [OF a] by blast
qed


subsection \<open>Runs that may stop early\<close>

lemma block_single: "block [stmt] = stmt"
  by (cases stmt) (auto split: option.splits)

lemma along_returned: "along (t, None) t"
  by (simp add: along_def)

lemma along_raised: "take (length t) events = t \<Longrightarrow> along (t, Some e) events"
  by (simp add: along_def)

lemma along_length: "along r events \<Longrightarrow> length (fst r) \<le> length events"
proof -
  assume "along r events"
  then have "take (length (fst r)) events = fst r"
    by (simp add: along_def)
  then have "length (take (length (fst r)) events) = length (fst r)"
    by simp
  then show ?thesis
    by simp
qed

lemma along_block_Nil: "along (block []) []"
  by (simp add: along_def)

lemma along_block_Cons:
  assumes "along stmt a" and "along (block rest) b"
  shows "along (block (stmt # rest)) (a @ b)"
proof (cases "snd stmt")
  case None
  then have a: "fst stmt = a"
    using assms(1) by (simp add: along_def)
  show ?thesis
    using assms(2) None by (simp add: along_def a)
next
  case (Some e)
  have "length (fst stmt) \<le> length a"
    using assms(1) by (rule along_length)
  then have "take (length (fst stmt)) (a @ b) = take (length (fst stmt)) a"
    by simp
  then show ?thesis
    using assms(1) Some by (simp add: along_def)
qed

lemma along_console_print: "along (console_print con m) [Console_print m]"
  by (simp add: console_print_def emit_def along_def)

lemma along_block_print:
  assumes "along (block rest) b"
  shows "along (block (console_print con m # rest)) (Console_print m # b)"
  using along_block_Cons [OF along_console_print assms] by simp

lemma along_block_emit:
  assumes "along (block rest) b"
  shows "along (block (emit e # rest)) (e # b)"
proof -
  have "along (emit e) [e]"
    by (simp add: emit_def along_def)
  from along_block_Cons [OF this assms] show ?thesis by simp
qed

lemma along_and_then:
  assumes "along (rest v) events"
  shows "along (and_then (t, Inr v) rest) (t @ events)"
  using assms by (simp add: and_then_def along_def)

subsection \<open>The report of \<^verbatim>\<open>check\<close>\<close>

lemma record_lines: "screen_entry r = record_on_screen r" "file_entry r = record_in_file r"
  by (simp_all add: screen_entry_def record_on_screen_def file_entry_def record_in_file_def)

lemma dict_get_item: "wf_dict d \<Longrightarrow> (key, val) \<in> set d \<Longrightarrow> dict_get d key = Some val"
  by (simp add: wf_dict_def dict_get_def)

lemma along_print_entries:
  "along (print_entries con val) (map (\<lambda>r. Console_print (record_on_screen r)) val)"
proof (induction val)
  case Nil
  show ?case by (simp add: along_def)
next
  case (Cons r val)
  have "along (block [print_entries con val])
          (map (\<lambda>r. Console_print (record_on_screen r)) val)"
    using Cons by (simp only: block_single)
  then show ?case
    using along_block_print [of "[print_entries con val]" _ con "screen_entry r"]
    by (simp add: record_lines)
qed

lemma along_print_keys:
  assumes "wf_dict d" and "set items \<subseteq> set d"
  shows "along (print_keys con d (map fst items)) (report_on_screen items)"
  using assms(2)
proof (induction items)
  case Nil
  show ?case by (simp add: report_on_screen_def along_def)
next
  case (Cons item items)
  obtain key val where item: "item = (key, val)" by (cases item)
  have get: "dict_get d key = Some val"
    using Cons.prems item assms(1) by (simp add: dict_get_item)
  have rest: "along (block [print_keys con d (map fst items)]) (report_on_screen items)"
    using Cons by (simp only: block_single) simp
  have "along (block [console_print con [], print_keys con d (map fst items)])
          (Console_print [] # report_on_screen items)"
    using rest by (rule along_block_print)
  then have "along (block [print_entries con val, console_print con [],
                           print_keys con d (map fst items)])
          (map (\<lambda>r. Console_print (record_on_screen r)) val
             @ Console_print [] # report_on_screen items)"
    by (rule along_block_Cons [OF along_print_entries])
  then have "along (block [console_print con (screen_key key), print_entries con val,
                           console_print con [], print_keys con d (map fst items)])
          (Console_print (screen_key key)
             # map (\<lambda>r. Console_print (record_on_screen r)) val
             @ Console_print [] # report_on_screen items)"
    by (rule along_block_print)
  then show ?case
    by (simp add: item get report_on_screen_def screen_key_def)
qed

lemma along_print_to_screen:
  "wf_dict report \<Longrightarrow> along (print_to_screen con report) (report_on_screen report)"
  by (simp add: print_to_screen_def dict_keys_def along_print_keys)

lemma write_entries_map: "write_entries f val = map (\<lambda>r. File_write f (record_in_file r)) val"
  by (induction val) (auto simp: record_lines)

lemma write_keys_items:
  assumes "wf_dict d" and "set items \<subseteq> set d"
  shows "write_keys f d (map fst items) = (concat (map (\<lambda>(key, val).
        File_write f (key @ '':'' @ newline)
          # map (\<lambda>r. File_write f (record_in_file r)) val
          @ [File_write f newline]) items), None)"
  using assms(2)
proof (induction items)
  case Nil
  then show ?case by simp
next
  case (Cons item items)
  obtain key val where item: "item = (key, val)" by (cases item)
  have "dict_get d key = Some val"
    using Cons.prems item assms(1) by (simp add: dict_get_item)
  then show ?case
    using Cons by (simp add: item emit_def write_entries_map)
qed

lemma write_keys_report:
  assumes "wf_dict report"
  shows "write_keys f report (dict_keys report)
     = (map (File_write f) (concat (map (\<lambda>(key, val).
           (key @ '':'' @ newline) # map record_in_file val @ [newline]) report)), None)"
proof -
  have "write_keys f report (map fst report) = (concat (map (\<lambda>(key, val).
        File_write f (key @ '':'' @ newline)
          # map (\<lambda>r. File_write f (record_in_file r)) val
          @ [File_write f newline]) report), None)"
    using assms by (rule write_keys_items) simp
  also have "concat (map (\<lambda>(key, val).
        File_write f (key @ '':'' @ newline)
          # map (\<lambda>r. File_write f (record_in_file r)) val
          @ [File_write f newline]) report)
     = map (File_write f) (concat (map (\<lambda>(key, val).
           (key @ '':'' @ newline) # map record_in_file val @ [newline]) report))"
    by (induction report) (auto simp: map_concat)
  finally show ?thesis
    by (simp add: dict_keys_def)
qed

lemma save_to_file_run:
  assumes "wf_dict report" and "writable sys f"
  shows "save_to_file sys f report input_file (total_errors report)
           = (saving f input_file report, None)"
  using assms(2)
  by (simp add: save_to_file_def Let_def emit_def write_keys_report [OF assms(1)] saving_def)

lemma along_save_to_file:
  assumes "wf_dict report"
  shows "along (save_to_file sys f report input_file (total_errors report))
           (saving f input_file report)"
proof (cases "writable sys f")
  case True
  then show ?thesis
    by (simp add: save_to_file_run [OF assms] along_returned)
next
  case False
  then show ?thesis
    by (simp add: save_to_file_def along_def)
qed

lemma count_errors_sum:
  "count_errors items n = n + sum_list (map (\<lambda>item. length (snd item)) items)"
  by (induction items n rule: count_errors.induct) auto

lemma total_errors_items:
  assumes "wf_dict d" and "set items \<subseteq> set d"
  shows "sum_list (map (\<lambda>key. case dict_get d key of None \<Rightarrow> 0 | Some val \<Rightarrow> length val)
                   (map fst items))
         = sum_list (map (\<lambda>item. length (snd item)) items)"
  using assms(2)
proof (induction items)
  case Nil
  then show ?case by simp
next
  case (Cons item items)
  obtain key val where item: "item = (key, val)" by (cases item)
  have "dict_get d key = Some val"
    using Cons.prems item assms(1) by (simp add: dict_get_item)
  then show ?case
    using Cons by (simp add: item)
qed

lemma count_errors_total:
  assumes "wf_dict report"
  shows "count_errors (dict_items report) 0 = total_errors report"
proof -
  have "total_errors report = sum_list (map (\<lambda>item. length (snd item)) report)"
    unfolding total_errors_def dict_keys_def
    using total_errors_items [OF assms, of report] by simp
  then show ?thesis
    by (simp add: count_errors_sum dict_items_def)
qed

lemma total_errors_Nil: "total_errors [] = 0"
  by (simp add: total_errors_def dict_keys_def)

lemma files_after_writes:
  "files_after (map (File_write f) chunks) files f
     = (if chunks = [] then files f
        else Some ((case files f of None \<Rightarrow> [] | Some text \<Rightarrow> text) @ concat chunks))"
proof (induction chunks arbitrary: files)
  case Nil
  then show ?case by (simp add: files_after_def)
next
  case (Cons c chunks)
  have "files_after (map (File_write f) (c # chunks)) files
      = files_after (map (File_write f) chunks) (file_effect (File_write f c) files)"
    by (simp add: files_after_def)
  then show ?case
    by (simp add: Cons.IH split: option.splits)
qed

lemma concat_group_chunks:
  "concat (concat (map (\<lambda>(key, val).
           (key @ '':'' @ newline) # map record_in_file val @ [newline]) report))
   = concat (map (\<lambda>(key, val).
           key @ '':'' @ newline @ concat (map record_in_file val) @ newline) report)"
  by (induction report) auto

lemma files_after_saving:
  "files_after (saving f input_file report) files f
     = Some (report_in_file input_file report (total_errors report))"
proof -
  let ?chunks = "(''Input file: '' @ input_file @ newline)
               # (str_nat (total_errors report) @ '' errors found!'' @ newline)
               # newline
               # concat (map (\<lambda>(key, val).
                    (key @ '':'' @ newline) # map record_in_file val @ [newline]) report)"
  have "files_after (saving f input_file report) files f
      = files_after [File_close f]
          (files_after (map (File_write f) ?chunks)
             (files_after [File_open_w f] files)) f"
    unfolding saving_def
    by (simp only: files_after_append [symmetric] append_Cons append_Nil)
  also have "\<dots> = files_after (map (File_write f) ?chunks) (files(f \<mapsto> [])) f"
    by (simp add: files_after_def)
  also have "\<dots> = Some (concat ?chunks)"
    by (subst files_after_writes) simp
  also have "concat ?chunks = report_in_file input_file report (total_errors report)"
    using concat_group_chunks [of report] by (simp add: report_in_file_def)
  finally show ?thesis .
qed

lemma along_check:
  assumes "endswith input_file ''.ags''"
    and "check_file lib input_file dictionary = Inr report"
    and "wf_dict report"
  shows "along (check con sys lib input_file dictionary output_file)
           (whole_check input_file dictionary output_file report)"
proof -
  let ?n = "total_errors report"
  let ?log = "case output_file of
                None \<Rightarrow> path_join (dirname input_file) ''error_log.txt''
              | Some given \<Rightarrow> given"
  let ?found = "if report = [] then
                  console_print con (newline
                    @ ''[green]File check complete! No errors found. :heavy_check_mark:[/green]''
                    @ newline)
                else if ?n < 100 then
                  block
                    [print_to_screen con report,
                     console_print con (errors_found ?n),
                     (case output_file of
                        None \<Rightarrow> block []
                      | Some out_file \<Rightarrow>
                          block
                           [save_to_file sys out_file report input_file ?n,
                            console_print con (newline @ ''[yellow]Error report saved in ''
                              @ out_file @ ''.[/yellow]'' @ newline)])]
                else
                  block
                    [console_print con (errors_found ?n),
                     console_print con (newline
                       @ ''[yellow]Error report too long to print to screen.[/yellow]''),
                     block
                       [save_to_file sys ?log report input_file ?n,
                        console_print con (newline @ ''[yellow]Error report saved in ''
                          @ ?log @ ''[/yellow]'' @ newline)]]"
  let ?rest = "if report = [] then
          [Console_print (newline
             @ ''[green]File check complete! No errors found. :heavy_check_mark:[/green]''
             @ newline)]
        else if ?n < 100 then
          report_on_screen report
          @ [Console_print (count_message ?n)]
          @ (case output_file of
               None \<Rightarrow> []
             | Some f \<Rightarrow>
                 saving f input_file report
                 @ [Console_print (newline @ ''[yellow]Error report saved in '' @ f
                      @ ''.[/yellow]'' @ newline)])
        else
          [Console_print (count_message ?n),
           Console_print (newline
             @ ''[yellow]Error report too long to print to screen.[/yellow]'')]
          @ (saving ?log input_file report
                @ [Console_print (newline @ ''[yellow]Error report saved in '' @ ?log
                     @ ''[/yellow]'' @ newline)])"
  have msg: "errors_found ?n = count_message ?n"
    by (simp add: errors_found_def count_message_def)
  have saved: "along (block [save_to_file sys f report input_file ?n, console_print con m])
                 (saving f input_file report @ [Console_print m])" for f m
  proof -
    have "along (block [console_print con m]) [Console_print m]"
      by (simp only: block_single along_console_print)
    then show ?thesis
      by (rule along_block_Cons [OF along_save_to_file [OF assms(3)]])
  qed
  have found: "along ?found ?rest"
  proof (cases "report = []")
    case True
    then show ?thesis
      by (simp add: along_console_print)
  next
    case False
    note found = this
    show ?thesis
    proof (cases "?n < 100")
    case True
    have last: "along (block [case output_file of
                        None \<Rightarrow> block []
                      | Some out_file \<Rightarrow>
                          block
                           [save_to_file sys out_file report input_file ?n,
                            console_print con (newline @ ''[yellow]Error report saved in ''
                              @ out_file @ ''.[/yellow]'' @ newline)]])
                  (case output_file of
                     None \<Rightarrow> []
                   | Some f \<Rightarrow>
                       saving f input_file report
                       @ [Console_print (newline @ ''[yellow]Error report saved in '' @ f
                            @ ''.[/yellow]'' @ newline)])"
      unfolding block_single
      by (cases output_file) (simp_all add: along_block_Nil saved del: block.simps)
    have "along (block
                    [print_to_screen con report,
                     console_print con (errors_found ?n),
                     (case output_file of
                        None \<Rightarrow> block []
                      | Some out_file \<Rightarrow>
                          block
                           [save_to_file sys out_file report input_file ?n,
                            console_print con (newline @ ''[yellow]Error report saved in ''
                              @ out_file @ ''.[/yellow]'' @ newline)])])
            (report_on_screen report
              @ Console_print (errors_found ?n)
              # (case output_file of
                   None \<Rightarrow> []
                 | Some f \<Rightarrow>
                     saving f input_file report
                     @ [Console_print (newline @ ''[yellow]Error report saved in '' @ f
                          @ ''.[/yellow]'' @ newline)]))"
      by (rule along_block_Cons [OF along_print_to_screen [OF assms(3)]
            along_block_print [OF last]])
    then show ?thesis
      using True found by (simp add: msg del: block.simps)
  next
    case False
    have "along (block [block
                       [save_to_file sys ?log report input_file ?n,
                        console_print con (newline @ ''[yellow]Error report saved in ''
                          @ ?log @ ''[/yellow]'' @ newline)]])
            (saving ?log input_file report
                @ [Console_print (newline @ ''[yellow]Error report saved in '' @ ?log
                     @ ''[/yellow]'' @ newline)])"
      unfolding block_single by (rule saved)
    then have "along (block
                    [console_print con (errors_found ?n),
                     console_print con (newline
                       @ ''[yellow]Error report too long to print to screen.[/yellow]''),
                     block
                       [save_to_file sys ?log report input_file ?n,
                        console_print con (newline @ ''[yellow]Error report saved in ''
                          @ ?log @ ''[/yellow]'' @ newline)]])
            (Console_print (errors_found ?n)
              # Console_print (newline
                   @ ''[yellow]Error report too long to print to screen.[/yellow]'')
              # (saving ?log input_file report
                @ [Console_print (newline @ ''[yellow]Error report saved in '' @ ?log
                     @ ''[/yellow]'' @ newline)]))"
      by (intro along_block_print)
    then show ?thesis
      using False found by (simp add: msg del: block.simps)
    qed
  qed
  have call: "along (block [and_then ([Call_check_file input_file dictionary], Inr report)
                              (\<lambda>ags_errors. ?found)])
                (Call_check_file input_file dictionary # ?rest)"
    unfolding block_single
    using along_and_then [of "\<lambda>ags_errors. ?found" report ?rest
        "[Call_check_file input_file dictionary]", OF found]
    by simp
  have "along (block
         [console_print con (''[green]Opening file... [bold]'' @ input_file @ ''[/bold][/green]''),
          console_print con '''',
          emit (Console_status ''[bold green]Checking file...''),
          and_then ([Call_check_file input_file dictionary], Inr report)
            (\<lambda>ags_errors. ?found)])
         (Console_print (''[green]Opening file... [bold]'' @ input_file @ ''[/bold][/green]'')
          # Console_print ''''
          # Console_status ''[bold green]Checking file...''
          # Call_check_file input_file dictionary # ?rest)"
    by (intro along_block_print along_block_emit call)
  moreover have "check con sys lib input_file dictionary output_file
      = block
         [console_print con (''[green]Opening file... [bold]'' @ input_file @ ''[/bold][/green]''),
          console_print con '''',
          emit (Console_status ''[bold green]Checking file...''),
          and_then ([Call_check_file input_file dictionary], Inr report)
            (\<lambda>ags_errors. ?found)]"
    using assms(1,2)
    by (simp add: check_def and_then_def Let_def count_errors_total [OF assms(3)]
        del: block.simps)
  moreover have "whole_check input_file dictionary output_file report
      = Console_print (''[green]Opening file... [bold]'' @ input_file @ ''[/bold][/green]'')
          # Console_print ''''
          # Console_status ''[bold green]Checking file...''
          # Call_check_file input_file dictionary # ?rest"
    by (simp add: whole_check_def Let_def)
  ultimately show ?thesis
    by (simp only:)
qed

end
